theory Spec2Isabelle
  imports Complex_Main
begin

section \<open>JavaScript data values\<close>

text \<open>
  The helper functions of \<^verbatim>\<open>evaluation-row.ts\<close> are compiled TypeScript: at run time
  the parameter types are erased and every function receives an arbitrary JavaScript
  value. The values considered here are the data values: \<^verbatim>\<open>undefined\<close>, \<^verbatim>\<open>null\<close>,
  booleans, numbers, strings, arrays and plain objects. An object is the list of its
  own properties in insertion order (keys are expected to be distinct; a read takes the
  first binding of a key). Functions, symbols, getters and sparse arrays are not data
  values. The members that a value inherits from the built-in prototypes, such as
  \<^verbatim>\<open>toString\<close> and \<^verbatim>\<open>constructor\<close>, are functions and prototype objects: no built-in
  prototype has a member named by one of the fixed keys that the functions below read
  (\<^verbatim>\<open>messages\<close>, \<^verbatim>\<open>role\<close>, \<^verbatim>\<open>evaluation_result\<close>, \<^verbatim>\<open>step_outputs\<close>,
  \<^verbatim>\<open>input_metadata\<close>, the option names), so for those keys the own properties are the
  whole read. The one key that the caller chooses, in \<^verbatim>\<open>getInputMetadata\<close>, can name an
  inherited member, and is read through the prototype chain.

  A finite number is stood for by a rational; negative zero is identified with zero,
  which no operation below tells apart. A string is a list of characters, one
  \<^typ>\<open>char\<close> for one code unit.
\<close>

datatype number = NaN | Infinity | NegInfinity | Finite rat

datatype jsval =
    JUndefined
  | JNull
  | JBool bool
  | JNum number
  | JStr string
  | JArr "jsval list"
  | JObj "(string \<times> jsval) list"

text \<open>The exceptions the runtime can raise in the operations used below.\<close>

datatype exn = TypeError | SyntaxError

subsection \<open>Primitive operations of the language\<close>

text \<open>Sequencing of computations that may throw: the first exception is the result.\<close>

definition bindE :: "exn + 'a \<Rightarrow> ('a \<Rightarrow> exn + 'b) \<Rightarrow> exn + 'b" where
  "bindE m f = (case m of Inl e \<Rightarrow> Inl e | Inr x \<Rightarrow> f x)"

text \<open>\<^verbatim>\<open>ToBoolean\<close>: the falsy values are \<^verbatim>\<open>undefined\<close>, \<^verbatim>\<open>null\<close>, \<^verbatim>\<open>false\<close>,
  \<^verbatim>\<open>0\<close>, \<^verbatim>\<open>NaN\<close> and the empty string.\<close>

fun to_boolean :: "jsval \<Rightarrow> bool" where
  "to_boolean JUndefined = False"
| "to_boolean JNull = False"
| "to_boolean (JBool b) = b"
| "to_boolean (JNum NaN) = False"
| "to_boolean (JNum (Finite q)) = (q \<noteq> 0)"
| "to_boolean (JNum _) = True"
| "to_boolean (JStr s) = (s \<noteq> [])"
| "to_boolean (JArr _) = True"
| "to_boolean (JObj _) = True"

fun typeof :: "jsval \<Rightarrow> string" where
  "typeof JUndefined = ''undefined''"
| "typeof JNull = ''object''"
| "typeof (JBool _) = ''boolean''"
| "typeof (JNum _) = ''number''"
| "typeof (JStr _) = ''string''"
| "typeof (JArr _) = ''object''"
| "typeof (JObj _) = ''object''"

fun nullish :: "jsval \<Rightarrow> bool" where
  "nullish JUndefined = True"
| "nullish JNull = True"
| "nullish _ = False"

text \<open>
  The decimal numeral of a natural number, as \<^verbatim>\<open>ToString\<close> produces it for an array
  index or inside a template literal.
\<close>

definition digit_char :: "nat \<Rightarrow> char" where
  "digit_char d = ''0123456789'' ! d"

function show_nat :: "nat \<Rightarrow> string" where
  "show_nat n = (if n < 10 then [digit_char n] else show_nat (n div 10) @ [digit_char (n mod 10)])"
  by pat_completeness auto
termination
  by (relation "measure id") auto

declare show_nat.simps [simp del]

text \<open>
  The own properties of a value. An array has \<^verbatim>\<open>length\<close> and one property per index,
  named by the decimal numeral of the index; a string likewise, with one-character
  strings as elements. Booleans and numbers have no own property.
\<close>

definition index_prop :: "'a list \<Rightarrow> string \<Rightarrow> 'a option" where
  "index_prop xs k =
     (case filter (\<lambda>i. show_nat i = k) [0..<length xs] of [] \<Rightarrow> None | i # _ \<Rightarrow> Some (xs ! i))"

definition length_num :: "'a list \<Rightarrow> jsval" where
  "length_num xs = JNum (Finite (of_nat (length xs)))"

fun own_prop :: "jsval \<Rightarrow> string \<Rightarrow> jsval option" where
  "own_prop (JObj ps) k = map_of ps k"
| "own_prop (JArr xs) k = (if k = ''length'' then Some (length_num xs) else index_prop xs k)"
| "own_prop (JStr s) k =
     (if k = ''length'' then Some (length_num s) else map_option (\<lambda>c. JStr [c]) (index_prop s k))"
| "own_prop _ k = None"

text \<open>
  Reading a property, \<^verbatim>\<open>v.k\<close> or \<^verbatim>\<open>v[k]\<close>: a \<^verbatim>\<open>TypeError\<close> on \<^verbatim>\<open>undefined\<close> and
  \<^verbatim>\<open>null\<close>, the property's value when the value has it, \<^verbatim>\<open>undefined\<close> otherwise.
\<close>

definition get_prop :: "jsval \<Rightarrow> string \<Rightarrow> exn + jsval" where
  "get_prop v k =
     (if nullish v then Inl TypeError
      else Inr (case own_prop v k of Some x \<Rightarrow> x | None \<Rightarrow> JUndefined))"

text \<open>Optional chaining, \<^verbatim>\<open>v?.k\<close> and \<^verbatim>\<open>v?.[k]\<close>.\<close>

definition get_prop_opt :: "jsval \<Rightarrow> string \<Rightarrow> exn + jsval" where
  "get_prop_opt v k = (if nullish v then Inr JUndefined else get_prop v k)"

text \<open>
  Reading a property under a key that the caller chooses, \<^verbatim>\<open>v[key]\<close>. An own property
  is found first; otherwise the read walks the prototype chain of the value and finds
  the member that the value inherits under that name, if there is one. Which names a
  value inherits is a table of the runtime, taken as the parameter \<open>inh\<close>:
  \<open>inh v k\<close> says that the prototype chain of \<open>v\<close> has a member named \<open>k\<close>. The result
  is a data value or that inherited member, which is a function or a prototype object
  and so neither \<^verbatim>\<open>null\<close> nor \<^verbatim>\<open>undefined\<close>.
\<close>

datatype looked_up = Data jsval | Inherited string

definition get_member :: "(jsval \<Rightarrow> string \<Rightarrow> bool) \<Rightarrow> jsval \<Rightarrow> string \<Rightarrow> exn + looked_up" where
  "get_member inh v k =
     (if nullish v then Inl TypeError
      else Inr (case own_prop v k of
                  Some x \<Rightarrow> Data x
                | None \<Rightarrow> if inh v k then Inherited k else Data JUndefined))"

text \<open>Optional chaining with such a key, \<^verbatim>\<open>v?.[key]\<close>.\<close>

definition get_member_opt :: "(jsval \<Rightarrow> string \<Rightarrow> bool) \<Rightarrow> jsval \<Rightarrow> string \<Rightarrow> exn + looked_up" where
  "get_member_opt inh v k = (if nullish v then Inr (Data JUndefined) else get_member inh v k)"

text \<open>
  The operator \<^verbatim>\<open>??\<close> yields its right operand when the left one is \<^verbatim>\<open>null\<close> or
  \<^verbatim>\<open>undefined\<close>, and its left operand otherwise.
\<close>

fun coalesce :: "looked_up \<Rightarrow> jsval \<Rightarrow> looked_up" where
  "coalesce (Data v) d = Data (if nullish v then d else v)"
| "coalesce (Inherited k) d = Inherited k"

text \<open>
  A sample table, for evaluating closed instances: the members of \<^verbatim>\<open>Object.prototype\<close>,
  which every value other than \<^verbatim>\<open>null\<close> and \<^verbatim>\<open>undefined\<close> inherits. The members of the
  other built-in prototypes are not listed in it.
\<close>

definition Object_prototype :: "string list" where
  "Object_prototype =
     [''constructor'', ''hasOwnProperty'', ''isPrototypeOf'', ''propertyIsEnumerable'',
      ''toLocaleString'', ''toString'', ''valueOf'', ''__proto__'',
      ''__defineGetter__'', ''__defineSetter__'', ''__lookupGetter__'', ''__lookupSetter__'']"

definition inherits_from_Object :: "jsval \<Rightarrow> string \<Rightarrow> bool" where
  "inherits_from_Object v k = (k \<in> set Object_prototype)"

section \<open>The validator\<close>

text \<open>
  \<^verbatim>\<open>
  export function validateEvaluationRow(row: any): { valid: boolean; errors: string[] } {
    const errors: string[] = [];
    if (!row) {
      errors.push('EvaluationRow is null or undefined');
      return { valid: false, errors };
    }
    if (!Array.isArray(row.messages)) {
      errors.push('messages field is required and must be an array');
    } else if (row.messages.length === 0) {
      errors.push('messages array cannot be empty');
    } else {
      row.messages.forEach((msg: any, index: number) => {
        if (!msg || typeof msg !== 'object') {
          errors.push(`messages[${index}] must be an object`);
        } else if (typeof msg.role !== 'string') {
          errors.push(`messages[${index}].role must be a string`);
        }
      });
    }
    return { valid: errors.length === 0, errors };
  }
  \<close>
  The array \<^verbatim>\<open>errors\<close> is threaded through the model as an accumulator; \<^verbatim>\<open>push\<close>
  appends at the end.
\<close>

record validation =
  valid :: bool
  errors :: "string list"

text \<open>The body of the \<^verbatim>\<open>forEach\<close> callback, for one message and its index.\<close>

definition check_message :: "string list \<Rightarrow> jsval \<Rightarrow> nat \<Rightarrow> exn + string list" where
  "check_message errs msg index =
     (if \<not> to_boolean msg \<or> typeof msg \<noteq> ''object''
      then Inr (errs @ [''messages['' @ show_nat index @ ''] must be an object''])
      else bindE (get_prop msg ''role'') (\<lambda>role.
             if typeof role \<noteq> ''string''
             then Inr (errs @ [''messages['' @ show_nat index @ ''].role must be a string''])
             else Inr errs))"

text \<open>\<^verbatim>\<open>forEach\<close>: the callback runs on every element, with indices counting up.\<close>

fun forEach_check :: "string list \<Rightarrow> nat \<Rightarrow> jsval list \<Rightarrow> exn + string list" where
  "forEach_check errs index [] = Inr errs"
| "forEach_check errs index (msg # rest) =
     bindE (check_message errs msg index) (\<lambda>errs'. forEach_check errs' (Suc index) rest)"

text \<open>
  \<^verbatim>\<open>Array.isArray\<close> holds of the arrays only, so the three branches on
  \<^verbatim>\<open>row.messages\<close> are a case distinction on the value.
\<close>

definition validateEvaluationRow :: "jsval \<Rightarrow> exn + validation" where
  "validateEvaluationRow row =
     (if \<not> to_boolean row
      then Inr \<lparr>valid = False, errors = [] @ [''EvaluationRow is null or undefined'']\<rparr>
      else bindE (get_prop row ''messages'') (\<lambda>messages.
           bindE (case messages of
                    JArr msgs \<Rightarrow>
                      if length msgs = 0
                      then Inr ([] @ [''messages array cannot be empty''])
                      else forEach_check [] 0 msgs
                  | _ \<Rightarrow> Inr ([] @ [''messages field is required and must be an array'']))
             (\<lambda>errs. Inr \<lparr>valid = (length errs = 0), errors = errs\<rparr>)))"

section \<open>The type guard and the accessors\<close>

text \<open>
  \<^verbatim>\<open>
  export function isEvaluationRow(obj: any): obj is EvaluationRow {
    return (
      obj &&
      typeof obj === 'object' &&
      Array.isArray(obj.messages) &&
      obj.messages.every((msg: any) =>
        msg &&
        typeof msg === 'object' &&
        typeof msg.role === 'string'
      )
    );
  }
  \<close>
  The operator \<^verbatim>\<open>&&\<close> yields its left operand when that is falsy, so the function
  returns a value that need not be a boolean; \<^verbatim>\<open>every\<close> stops at the first element
  whose callback result is falsy.
\<close>

definition message_guard :: "jsval \<Rightarrow> exn + jsval" where
  "message_guard msg =
     (if \<not> to_boolean msg then Inr msg
      else if typeof msg \<noteq> ''object'' then Inr (JBool False)
      else bindE (get_prop msg ''role'') (\<lambda>role. Inr (JBool (typeof role = ''string''))))"

fun every :: "(jsval \<Rightarrow> exn + jsval) \<Rightarrow> jsval list \<Rightarrow> exn + bool" where
  "every f [] = Inr True"
| "every f (x # xs) = bindE (f x) (\<lambda>r. if to_boolean r then every f xs else Inr False)"

definition isEvaluationRow :: "jsval \<Rightarrow> exn + jsval" where
  "isEvaluationRow obj =
     (if \<not> to_boolean obj then Inr obj
      else if typeof obj \<noteq> ''object'' then Inr (JBool False)
      else bindE (get_prop obj ''messages'') (\<lambda>messages.
             case messages of
               JArr msgs \<Rightarrow> bindE (every message_guard msgs) (\<lambda>b. Inr (JBool b))
             | _ \<Rightarrow> Inr (JBool False)))"

text \<open>
  The comparison \<^verbatim>\<open>v > 0\<close> converts \<^verbatim>\<open>v\<close> with \<^verbatim>\<open>ToNumber\<close>. On \<^verbatim>\<open>undefined\<close>,
  \<^verbatim>\<open>null\<close>, booleans and numbers the conversion is written out; on strings, arrays and
  objects it parses text or calls conversion methods, which is left to the parameter
  \<open>conv\<close>: the results below hold for every such conversion.
\<close>

fun to_number :: "(jsval \<Rightarrow> exn + number) \<Rightarrow> jsval \<Rightarrow> exn + number" where
  "to_number conv JUndefined = Inr NaN"
| "to_number conv JNull = Inr (Finite 0)"
| "to_number conv (JBool b) = Inr (Finite (if b then 1 else 0))"
| "to_number conv (JNum n) = Inr n"
| "to_number conv v = conv v"

fun positive :: "number \<Rightarrow> bool" where
  "positive NaN = False"
| "positive Infinity = True"
| "positive NegInfinity = False"
| "positive (Finite q) = (0 < q)"

text \<open>A sample conversion, for evaluating closed instances: everything converts to \<^verbatim>\<open>NaN\<close>.\<close>

definition conv_NaN :: "jsval \<Rightarrow> exn + number" where
  "conv_NaN v = Inr NaN"

definition gt_zero :: "(jsval \<Rightarrow> exn + number) \<Rightarrow> jsval \<Rightarrow> exn + bool" where
  "gt_zero conv v = bindE (to_number conv v) (\<lambda>n. Inr (positive n))"

text \<open>
  \<^verbatim>\<open>
  export function isTrajectoryEvaluation(row: EvaluationRow): boolean {
    return (
      row.evaluation_result !== undefined &&
      row.evaluation_result.step_outputs !== undefined &&
      row.evaluation_result.step_outputs.length > 0
    );
  }
  \<close>
  Reads are pure, so \<^verbatim>\<open>row.evaluation_result\<close> is read once.
\<close>

definition isTrajectoryEvaluation :: "(jsval \<Rightarrow> exn + number) \<Rightarrow> jsval \<Rightarrow> exn + bool" where
  "isTrajectoryEvaluation conv row =
     bindE (get_prop row ''evaluation_result'') (\<lambda>evaluation_result.
       if evaluation_result \<noteq> JUndefined
       then bindE (get_prop evaluation_result ''step_outputs'') (\<lambda>step_outputs.
              if step_outputs \<noteq> JUndefined
              then bindE (get_prop step_outputs ''length'') (gt_zero conv)
              else Inr False)
       else Inr False)"

text \<open>
  \<^verbatim>\<open>
  export function getAssistantMessages(row: EvaluationRow): Message[] {
    return row.messages.filter(msg => msg.role === 'assistant');
  }
  export function getUserMessages(row: EvaluationRow): Message[] {
    return row.messages.filter(msg => msg.role === 'user');
  }
  \<close>
  Only an array has a \<^verbatim>\<open>filter\<close> method among the data values: calling it on anything
  else is a \<^verbatim>\<open>TypeError\<close>. The callback runs on every element, in order.
\<close>

definition role_is :: "string \<Rightarrow> jsval \<Rightarrow> exn + bool" where
  "role_is r msg = bindE (get_prop msg ''role'') (\<lambda>role. Inr (role = JStr r))"

fun filterE :: "(jsval \<Rightarrow> exn + bool) \<Rightarrow> jsval list \<Rightarrow> exn + jsval list" where
  "filterE f [] = Inr []"
| "filterE f (x # xs) =
     bindE (f x) (\<lambda>keep. bindE (filterE f xs) (\<lambda>ys. Inr (if keep then x # ys else ys)))"

fun array_filter :: "(jsval \<Rightarrow> exn + bool) \<Rightarrow> jsval \<Rightarrow> exn + jsval" where
  "array_filter f (JArr xs) = bindE (filterE f xs) (\<lambda>ys. Inr (JArr ys))"
| "array_filter f _ = Inl TypeError"

definition getAssistantMessages :: "jsval \<Rightarrow> exn + jsval" where
  "getAssistantMessages row =
     bindE (get_prop row ''messages'') (array_filter (role_is ''assistant''))"

definition getUserMessages :: "jsval \<Rightarrow> exn + jsval" where
  "getUserMessages row =
     bindE (get_prop row ''messages'') (array_filter (role_is ''user''))"

text \<open>
  \<^verbatim>\<open>
  export function getInputMetadata(row: EvaluationRow, key: string, defaultValue?: any): any {
    return row.input_metadata?.[key] ?? defaultValue;
  }
  \<close>
  An omitted \<^verbatim>\<open>defaultValue\<close> is \<^verbatim>\<open>undefined\<close>. The key is the caller's, so the read
  \<^verbatim>\<open>?.[key]\<close> goes through the prototype chain, with the runtime's table \<open>inh\<close>.
\<close>

definition getInputMetadata ::
    "(jsval \<Rightarrow> string \<Rightarrow> bool) \<Rightarrow> jsval \<Rightarrow> string \<Rightarrow> jsval \<Rightarrow> exn + looked_up" where
  "getInputMetadata inh row key defaultValue =
     bindE (get_prop row ''input_metadata'') (\<lambda>input_metadata.
       bindE (get_member_opt inh input_metadata key) (\<lambda>v.
         Inr (coalesce v defaultValue)))"

text \<open>
  \<^verbatim>\<open>
  export function getConversationLength(row: EvaluationRow): number {
    return row.messages.length;
  }
  \<close>
\<close>

definition getConversationLength :: "jsval \<Rightarrow> exn + jsval" where
  "getConversationLength row = bindE (get_prop row ''messages'') (\<lambda>messages. get_prop messages ''length'')"

text \<open>
  \<^verbatim>\<open>
  export function createEvaluationRow(messages: Message[], options?: {...}): EvaluationRow {
    return {
      messages,
      tools: options?.tools,
      input_metadata: options?.inputMetadata,
      ground_truth: options?.groundTruth,
      evaluation_result: options?.evaluationResult
    };
  }
  \<close>
  An omitted \<^verbatim>\<open>options\<close> is \<^verbatim>\<open>undefined\<close>. The object literal creates all five
  properties, whatever their values.
\<close>

definition createEvaluationRow :: "jsval \<Rightarrow> jsval \<Rightarrow> exn + jsval" where
  "createEvaluationRow messages options =
     bindE (get_prop_opt options ''tools'') (\<lambda>tools.
     bindE (get_prop_opt options ''inputMetadata'') (\<lambda>input_metadata.
     bindE (get_prop_opt options ''groundTruth'') (\<lambda>ground_truth.
     bindE (get_prop_opt options ''evaluationResult'') (\<lambda>evaluation_result.
       Inr (JObj [(''messages'', messages),
                  (''tools'', tools),
                  (''input_metadata'', input_metadata),
                  (''ground_truth'', ground_truth),
                  (''evaluation_result'', evaluation_result)])))))"

section \<open>The declared interfaces\<close>

text \<open>
  The interfaces of \<^verbatim>\<open>evaluation-row.d.ts\<close> as predicates on values. A required field
  \<^verbatim>\<open>f: T\<close> is an own property of type \<^verbatim>\<open>T\<close>; an optional field \<^verbatim>\<open>f?: T\<close> is missing,
  \<^verbatim>\<open>undefined\<close> or of type \<^verbatim>\<open>T\<close>. \<^verbatim>\<open>Record<string, T>\<close> is taken as a plain object
  whose values have type \<^verbatim>\<open>T\<close>, and \<^verbatim>\<open>any\<close> admits every value.
\<close>

definition required :: "(jsval \<Rightarrow> bool) \<Rightarrow> (string \<times> jsval) list \<Rightarrow> string \<Rightarrow> bool" where
  "required T ps k = (case map_of ps k of None \<Rightarrow> False | Some v \<Rightarrow> T v)"

definition optional :: "(jsval \<Rightarrow> bool) \<Rightarrow> (string \<times> jsval) list \<Rightarrow> string \<Rightarrow> bool" where
  "optional T ps k = (case map_of ps k of None \<Rightarrow> True | Some v \<Rightarrow> v = JUndefined \<or> T v)"

definition ty_string :: "jsval \<Rightarrow> bool" where
  "ty_string v = (typeof v = ''string'')"

definition ty_number :: "jsval \<Rightarrow> bool" where
  "ty_number v = (typeof v = ''number'')"

definition ty_boolean :: "jsval \<Rightarrow> bool" where
  "ty_boolean v = (typeof v = ''boolean'')"

fun ty_Array :: "(jsval \<Rightarrow> bool) \<Rightarrow> jsval \<Rightarrow> bool" where
  "ty_Array T (JArr xs) = list_all T xs"
| "ty_Array T _ = False"

fun ty_Record :: "(jsval \<Rightarrow> bool) \<Rightarrow> jsval \<Rightarrow> bool" where
  "ty_Record T (JObj ps) = list_all (\<lambda>(k, v). T v) ps"
| "ty_Record T _ = False"

definition ty_any :: "jsval \<Rightarrow> bool" where
  "ty_any v = True"

fun ty_function_call :: "jsval \<Rightarrow> bool" where
  "ty_function_call (JObj ps) = (required ty_string ps ''name'' \<and> required ty_string ps ''arguments'')"
| "ty_function_call _ = False"

fun ty_tool_call :: "jsval \<Rightarrow> bool" where
  "ty_tool_call (JObj ps) =
     (required ty_string ps ''id''
      \<and> required (\<lambda>v. v = JStr ''function'') ps ''type''
      \<and> required ty_function_call ps ''function'')"
| "ty_tool_call _ = False"

fun ty_Message :: "jsval \<Rightarrow> bool" where
  "ty_Message (JObj ps) =
     (required ty_string ps ''role''
      \<and> optional ty_string ps ''content''
      \<and> optional ty_string ps ''name''
      \<and> optional ty_string ps ''tool_call_id''
      \<and> optional (ty_Array ty_tool_call) ps ''tool_calls''
      \<and> optional ty_function_call ps ''function_call'')"
| "ty_Message _ = False"

fun ty_MetricResult :: "jsval \<Rightarrow> bool" where
  "ty_MetricResult (JObj ps) =
     (required ty_boolean ps ''is_score_valid''
      \<and> required ty_number ps ''score''
      \<and> required ty_string ps ''reason'')"
| "ty_MetricResult _ = False"

fun ty_StepOutput :: "jsval \<Rightarrow> bool" where
  "ty_StepOutput (JObj ps) =
     (required (\<lambda>v. ty_number v \<or> ty_string v) ps ''step_index''
      \<and> required ty_number ps ''base_reward''
      \<and> optional ty_boolean ps ''terminated''
      \<and> optional (ty_Record ty_any) ps ''control_plane_info''
      \<and> optional (ty_Record ty_any) ps ''metrics''
      \<and> optional ty_string ps ''reason'')"
| "ty_StepOutput _ = False"

fun ty_EvaluateResult :: "jsval \<Rightarrow> bool" where
  "ty_EvaluateResult (JObj ps) =
     (required ty_number ps ''score''
      \<and> optional ty_boolean ps ''is_score_valid''
      \<and> optional ty_string ps ''reason''
      \<and> optional (ty_Record ty_MetricResult) ps ''metrics''
      \<and> optional (ty_Array ty_StepOutput) ps ''step_outputs''
      \<and> optional ty_string ps ''error''
      \<and> optional (ty_Record ty_any) ps ''trajectory_info''
      \<and> optional (ty_Record ty_any) ps ''final_control_plane_info'')"
| "ty_EvaluateResult _ = False"

fun ty_EvaluationRow :: "jsval \<Rightarrow> bool" where
  "ty_EvaluationRow (JObj ps) =
     (required (ty_Array ty_Message) ps ''messages''
      \<and> optional (ty_Array (ty_Record ty_any)) ps ''tools''
      \<and> optional (ty_Record ty_any) ps ''input_metadata''
      \<and> optional ty_string ps ''ground_truth''
      \<and> optional ty_EvaluateResult ps ''evaluation_result'')"
| "ty_EvaluationRow _ = False"

section \<open>Serialization\<close>

text \<open>
  The language's \<^verbatim>\<open>JSON.parse(JSON.stringify(v))\<close> on a data value. Serializing writes
  \<^verbatim>\<open>null\<close> for a number that is not finite and for an \<^verbatim>\<open>undefined\<close> array element,
  and leaves out a property whose value is \<^verbatim>\<open>undefined\<close>; everything else is written
  and read back as it is. \<^verbatim>\<open>JSON.stringify(undefined)\<close> is \<^verbatim>\<open>undefined\<close>, which
  \<^verbatim>\<open>JSON.parse\<close> rejects with a \<^verbatim>\<open>SyntaxError\<close>.
\<close>

fun json_copy :: "jsval \<Rightarrow> jsval" where
  "json_copy JUndefined = JNull"
| "json_copy JNull = JNull"
| "json_copy (JBool b) = JBool b"
| "json_copy (JNum (Finite q)) = JNum (Finite q)"
| "json_copy (JNum _) = JNull"
| "json_copy (JStr s) = JStr s"
| "json_copy (JArr xs) = JArr (map json_copy xs)"
| "json_copy (JObj ps) =
     JObj (map (\<lambda>(k, v). (k, json_copy v)) (filter (\<lambda>(k, v). v \<noteq> JUndefined) ps))"

definition json_roundtrip :: "jsval \<Rightarrow> exn + jsval" where
  "json_roundtrip v = (if v = JUndefined then Inl SyntaxError else Inr (json_copy v))"

section \<open>What the specification expects\<close>

text \<open>
  The per-message rule of the validator in the specification's words: a message that is
  not an object gives "messages[i] must be an object", an object whose \<^verbatim>\<open>role\<close> is not
  a string gives "messages[i].role must be a string", any other message gives nothing.
  An object in the language's sense is an array or a plain object.
\<close>

fun is_object :: "jsval \<Rightarrow> bool" where
  "is_object (JObj _) = True"
| "is_object (JArr _) = True"
| "is_object _ = False"

definition has_string_role :: "jsval \<Rightarrow> bool" where
  "has_string_role m = (case own_prop m ''role'' of Some (JStr _) \<Rightarrow> True | _ \<Rightarrow> False)"

definition message_errors :: "nat \<Rightarrow> jsval \<Rightarrow> string list" where
  "message_errors i m =
     (if \<not> is_object m then [''messages['' @ show_nat i @ ''] must be an object'']
      else if \<not> has_string_role m then [''messages['' @ show_nat i @ ''].role must be a string'']
      else [])"

definition expected_errors :: "jsval list \<Rightarrow> string list" where
  "expected_errors msgs = concat (map (\<lambda>i. message_errors i (msgs ! i)) [0..<length msgs])"

text \<open>
  A field is present when the value has the property and its value is not \<^verbatim>\<open>undefined\<close>.
  A row is a trajectory evaluation when \<^verbatim>\<open>evaluation_result\<close> is present, its
  \<^verbatim>\<open>step_outputs\<close> is present, and that sequence has more than zero elements.
\<close>

definition field :: "jsval \<Rightarrow> string \<Rightarrow> jsval option" where
  "field v k = (case own_prop v k of None \<Rightarrow> None | Some x \<Rightarrow> if x = JUndefined then None else Some x)"

definition is_trajectory :: "jsval \<Rightarrow> bool" where
  "is_trajectory row =
     (case field row ''evaluation_result'' of
        None \<Rightarrow> False
      | Some evaluation_result \<Rightarrow>
          (case field evaluation_result ''step_outputs'' of
             Some (JArr steps) \<Rightarrow> 0 < length steps
           | _ \<Rightarrow> False))"

text \<open>The messages of a given role, in their original order.\<close>

definition with_role :: "string \<Rightarrow> jsval list \<Rightarrow> jsval list" where
  "with_role r msgs = filter (\<lambda>m. own_prop m ''role'' = Some (JStr r)) msgs"

text \<open>
  The value stored under a key of \<^verbatim>\<open>input_metadata\<close>, by a lookup of the whole key in
  that one mapping: \<open>None\<close> when the row has no \<^verbatim>\<open>input_metadata\<close> or the mapping has
  no such key.
\<close>

definition stored_metadata :: "jsval \<Rightarrow> string \<Rightarrow> jsval option" where
  "stored_metadata row key =
     (case own_prop row ''input_metadata'' of None \<Rightarrow> None | Some m \<Rightarrow> own_prop m key)"

text \<open>
  The key names a member that \<^verbatim>\<open>input_metadata\<close> inherits: the row has an
  \<^verbatim>\<open>input_metadata\<close> that is not \<^verbatim>\<open>null\<close> or \<^verbatim>\<open>undefined\<close>, and its prototype chain has
  a member of that name.
\<close>

definition inherited_metadata :: "(jsval \<Rightarrow> string \<Rightarrow> bool) \<Rightarrow> jsval \<Rightarrow> string \<Rightarrow> bool" where
  "inherited_metadata inh row key =
     (case own_prop row ''input_metadata'' of
        None \<Rightarrow> False
      | Some m \<Rightarrow> \<not> nullish m \<and> inh m key)"

text \<open>
  What the lookup is expected to return: the stored value when there is one and it is
  neither \<^verbatim>\<open>null\<close> nor \<^verbatim>\<open>undefined\<close>; the inherited member when nothing is stored under
  the key and the key names one; the default in every other case.
\<close>

definition expected_metadata ::
    "(jsval \<Rightarrow> string \<Rightarrow> bool) \<Rightarrow> jsval \<Rightarrow> string \<Rightarrow> jsval \<Rightarrow> looked_up" where
  "expected_metadata inh row key defaultValue =
     (case stored_metadata row key of
        Some v \<Rightarrow> Data (if nullish v then defaultValue else v)
      | None \<Rightarrow> if inherited_metadata inh row key then Inherited key else Data defaultValue)"

section \<open>The rows of the usage example\<close>

text \<open>
  The rows that \<^verbatim>\<open>example.ts\<close> builds with \<^verbatim>\<open>createEvaluationRow\<close>: the per-turn
  example and the trajectory example, each with the options object it passes.
\<close>

definition perTurn_messages :: jsval where
  "perTurn_messages = JArr
     [JObj [(''role'', JStr ''user''), (''content'', JStr ''What is 2+2?'')],
      JObj [(''role'', JStr ''assistant''), (''content'', JStr ''2+2 equals 4.'')]]"

definition perTurn_evaluationResult :: jsval where
  "perTurn_evaluationResult = JObj
     [(''score'', JNum (Finite 1)),
      (''reason'', JStr ''Correct answer''),
      (''metrics'', JObj [(''accuracy'', JObj
         [(''is_score_valid'', JBool True),
          (''score'', JNum (Finite 1)),
          (''reason'', JStr ''Perfect'')])])]"

definition perTurn_inputMetadata :: jsval where
  "perTurn_inputMetadata = JObj
     [(''row_id'', JStr ''math_001''),
      (''dataset_info'', JObj [(''source'', JStr ''math_eval'')]),
      (''model_config'', JObj [(''model'', JStr ''gpt-4''), (''temperature'', JNum (Finite 0))])]"

definition createPerTurnExample :: "exn + jsval" where
  "createPerTurnExample =
     createEvaluationRow perTurn_messages
       (JObj [(''groundTruth'', JStr ''4''),
              (''evaluationResult'', perTurn_evaluationResult),
              (''inputMetadata'', perTurn_inputMetadata)])"

definition perTurnRow :: jsval where
  "perTurnRow = JObj
     [(''messages'', perTurn_messages),
      (''tools'', JUndefined),
      (''input_metadata'', perTurn_inputMetadata),
      (''ground_truth'', JStr ''4''),
      (''evaluation_result'', perTurn_evaluationResult)]"

definition trajectory_messages :: "jsval list" where
  "trajectory_messages =
     [JObj [(''role'', JStr ''user''), (''content'', JStr ''Start task'')],
      JObj [(''role'', JStr ''assistant''), (''content'', JStr ''Starting step 1'')],
      JObj [(''role'', JStr ''user''), (''content'', JStr ''Continue'')],
      JObj [(''role'', JStr ''assistant''), (''content'', JStr ''Completing step 2'')]]"

definition trajectory_stepOutputs :: jsval where
  "trajectory_stepOutputs = JArr
     [JObj [(''step_index'', JNum (Finite 0)),
            (''base_reward'', JNum (Finite (3 / 10))),
            (''terminated'', JBool False)],
      JObj [(''step_index'', JNum (Finite 1)),
            (''base_reward'', JNum (Finite (7 / 10))),
            (''terminated'', JBool True),
            (''control_plane_info'', JObj [(''task_completed'', JBool True)])]]"

definition trajectory_evaluationResult :: jsval where
  "trajectory_evaluationResult = JObj
     [(''score'', JNum (Finite (1 / 2))),
      (''reason'', JStr ''Task completed in 2 steps''),
      (''step_outputs'', trajectory_stepOutputs),
      (''trajectory_info'', JObj
         [(''duration'', JNum (Finite (452 / 10))),
          (''steps'', JNum (Finite 2)),
          (''termination_reason'', JStr ''task_completed'')]),
      (''final_control_plane_info'', JObj [(''task_completed'', JBool True)])]"

definition trajectory_inputMetadata :: jsval where
  "trajectory_inputMetadata = JObj
     [(''row_id'', JStr ''trajectory_001''),
      (''session_data'', JObj [(''seed'', JNum (Finite 123)), (''environment'', JStr ''gridworld'')]),
      (''execution_info'', JObj [(''max_steps'', JNum (Finite 10)), (''timeout'', JNum (Finite 60))])]"

definition createTrajectoryExample :: "exn + jsval" where
  "createTrajectoryExample =
     createEvaluationRow (JArr trajectory_messages)
       (JObj [(''groundTruth'', JStr ''Task completed successfully''),
              (''evaluationResult'', trajectory_evaluationResult),
              (''inputMetadata'', trajectory_inputMetadata)])"

definition trajectoryRow :: jsval where
  "trajectoryRow = JObj
     [(''messages'', JArr trajectory_messages),
      (''tools'', JUndefined),
      (''input_metadata'', trajectory_inputMetadata),
      (''ground_truth'', JStr ''Task completed successfully''),
      (''evaluation_result'', trajectory_evaluationResult)]"

section \<open>Facts about the primitive operations\<close>

lemma bindE_Inr: "bindE (Inr x) f = f x"
  by (simp add: bindE_def)

lemma get_prop_not_nullish:
  "\<not> nullish v \<Longrightarrow> get_prop v k = Inr (case own_prop v k of Some x \<Rightarrow> x | None \<Rightarrow> JUndefined)"
  by (simp add: get_prop_def)

lemma truthy_not_nullish: "to_boolean v \<Longrightarrow> \<not> nullish v"
  by (cases v) auto

lemma get_prop_opt_total: "\<exists>x. get_prop_opt v k = Inr x"
  by (simp add: get_prop_opt_def get_prop_def)

lemma get_prop_opt_undefined: "get_prop_opt JUndefined k = Inr JUndefined"
  by (simp add: get_prop_opt_def)

text \<open>The guard \<^verbatim>\<open>msg && typeof msg === 'object'\<close> holds of arrays and plain objects.\<close>

lemma object_iff: "is_object m \<longleftrightarrow> to_boolean m \<and> typeof m = ''object''"
  by (cases m) auto

lemma string_role_iff:
  "is_object m \<Longrightarrow> get_prop m ''role'' = Inr r \<Longrightarrow> has_string_role m \<longleftrightarrow> typeof r = ''string''"
  apply (cases m; simp add: get_prop_def has_string_role_def split: option.splits)
  subgoal for xs by (cases r; auto)
  subgoal for xs by (cases r; auto)
  done

text \<open>A decimal numeral has digits only, so no index of an array is named by a word.\<close>

lemma digit_char_digit: "d < 10 \<Longrightarrow> digit_char d \<in> set ''0123456789''"
  unfolding digit_char_def by (rule nth_mem) simp

lemma show_nat_digits: "set (show_nat n) \<subseteq> set ''0123456789''"
proof (induction n rule: show_nat.induct)
  case (1 n)
  show ?case
  proof (cases "n < 10")
    case True
    then show ?thesis
      using digit_char_digit [of n] by (subst show_nat.simps) simp
  next
    case False
    have "n mod 10 < 10" by simp
    then have "digit_char (n mod 10) \<in> set ''0123456789''" by (rule digit_char_digit)
    with False "1.IH" show ?thesis
      by (subst show_nat.simps) simp
  qed
qed

lemma show_nat_not_name: "CHR ''e'' \<in> set k \<Longrightarrow> show_nat i \<noteq> k"
  using show_nat_digits [of i] by auto

lemma index_prop_name: "CHR ''e'' \<in> set k \<Longrightarrow> index_prop xs k = None"
  by (simp add: index_prop_def show_nat_not_name)

lemma own_prop_messages_array: "own_prop v ''messages'' = Some (JArr msgs) \<Longrightarrow> \<exists>ps. v = JObj ps"
  by (cases v) (auto simp: index_prop_name length_num_def)

section \<open>The validator computes the expected errors\<close>

lemma check_message_eq: "check_message errs m i = Inr (errs @ message_errors i m)"
proof (cases "is_object m")
  case False
  then show ?thesis
    by (simp add: check_message_def message_errors_def object_iff)
next
  case True
  then have nn: "\<not> nullish m" by (cases m) auto
  obtain r where r: "get_prop m ''role'' = Inr r"
    using nn by (simp add: get_prop_def)
  from True r have "has_string_role m \<longleftrightarrow> typeof r = ''string''"
    by (rule string_role_iff)
  with True r show ?thesis
    by (simp add: check_message_def message_errors_def object_iff bindE_Inr)
qed

text \<open>The loop, started at any index with any errors collected so far.\<close>

lemma forEach_check_eq:
  "forEach_check errs n msgs =
     Inr (errs @ concat (map (\<lambda>i. message_errors (n + i) (msgs ! i)) [0..<length msgs]))"
proof (induction msgs arbitrary: errs n)
  case Nil
  show ?case by simp
next
  case (Cons m msgs)
  have shift: "[0..<length (m # msgs)] = 0 # map Suc [0..<length msgs]"
    by (simp add: upt_conv_Cons map_Suc_upt del: upt_Suc)
  show ?case
    unfolding shift
    by (simp add: check_message_eq bindE_Inr Cons.IH comp_def)
qed

lemma forEach_check_expected: "forEach_check [] 0 msgs = Inr (expected_errors msgs)"
  by (simp add: forEach_check_eq expected_errors_def)

lemma validate_cases:
  "validateEvaluationRow row = Inr
     (if \<not> to_boolean row then \<lparr>valid = False, errors = [''EvaluationRow is null or undefined'']\<rparr>
      else case own_prop row ''messages'' of
             Some (JArr msgs) \<Rightarrow>
               if msgs = [] then \<lparr>valid = False, errors = [''messages array cannot be empty'']\<rparr>
               else \<lparr>valid = (expected_errors msgs = []), errors = expected_errors msgs\<rparr>
           | _ \<Rightarrow> \<lparr>valid = False, errors = [''messages field is required and must be an array'']\<rparr>)"
proof (cases "to_boolean row")
  case False
  then show ?thesis by (simp add: validateEvaluationRow_def)
next
  case True
  then have "\<not> nullish row" by (rule truthy_not_nullish)
  then have g: "get_prop row ''messages'' =
      Inr (case own_prop row ''messages'' of Some x \<Rightarrow> x | None \<Rightarrow> JUndefined)"
    by (rule get_prop_not_nullish)
  show ?thesis
    using True
    by (simp add: validateEvaluationRow_def g bindE_Inr forEach_check_expected
             split: option.splits jsval.splits)
qed

lemma message_errors_empty: "message_errors i m = [] \<longleftrightarrow> is_object m \<and> has_string_role m"
  by (simp add: message_errors_def)

lemma expected_errors_empty:
  "expected_errors msgs = [] \<longleftrightarrow> list_all (\<lambda>m. is_object m \<and> has_string_role m) msgs"
  by (auto simp: expected_errors_def message_errors_empty list_all_length)

lemma validate_well_formed:
  assumes "map_of ps ''messages'' = Some (JArr msgs)" and "msgs \<noteq> []"
    and "list_all (\<lambda>m. is_object m \<and> has_string_role m) msgs"
  shows "validateEvaluationRow (JObj ps) = Inr \<lparr>valid = True, errors = []\<rparr>"
  using assms by (simp add: validate_cases expected_errors_empty)

lemma valid_row_shape:
  assumes "validateEvaluationRow row = Inr r" and "errors r = []"
  obtains ps msgs where "row = JObj ps" "map_of ps ''messages'' = Some (JArr msgs)" "msgs \<noteq> []"
    "list_all (\<lambda>m. is_object m \<and> has_string_role m) msgs"
proof -
  from assms have t: "to_boolean row"
    by (auto simp: validate_cases split: if_splits)
  with assms obtain msgs where m: "own_prop row ''messages'' = Some (JArr msgs)"
    and ne: "msgs \<noteq> []" and ok: "expected_errors msgs = []"
    by (auto simp: validate_cases split: option.splits jsval.splits if_splits)
  from m obtain ps where ps: "row = JObj ps"
    using own_prop_messages_array by blast
  from ok have "list_all (\<lambda>m. is_object m \<and> has_string_role m) msgs"
    by (simp add: expected_errors_empty)
  with ps m ne that show thesis by simp
qed

lemma valid_iff_no_errors: "validateEvaluationRow row = Inr r \<Longrightarrow> valid r \<longleftrightarrow> errors r = []"
  by (auto simp: validate_cases split: if_splits option.splits jsval.splits)

section \<open>The type guard computes the same per-message test\<close>

lemma message_guard_eq:
  "\<exists>r. message_guard m = Inr r \<and> to_boolean r = (is_object m \<and> has_string_role m)"
proof (cases "is_object m")
  case False
  then show ?thesis
    by (auto simp: message_guard_def object_iff)
next
  case True
  then have nn: "\<not> nullish m" by (cases m) auto
  obtain r where r: "get_prop m ''role'' = Inr r"
    using nn by (simp add: get_prop_def)
  from True r have "has_string_role m \<longleftrightarrow> typeof r = ''string''"
    by (rule string_role_iff)
  with True r show ?thesis
    by (simp add: message_guard_def object_iff bindE_Inr)
qed

lemma every_message_guard:
  "every message_guard msgs = Inr (list_all (\<lambda>m. is_object m \<and> has_string_role m) msgs)"
proof (induction msgs)
  case Nil
  show ?case by simp
next
  case (Cons m msgs)
  obtain r where "message_guard m = Inr r" "to_boolean r = (is_object m \<and> has_string_role m)"
    using message_guard_eq by blast
  with Cons.IH show ?case by (auto simp: bindE_Inr)
qed

lemma isEvaluationRow_cases:
  "isEvaluationRow obj = Inr
     (if \<not> to_boolean obj then obj
      else case obj of
             JObj ps \<Rightarrow>
               (case map_of ps ''messages'' of
                  Some (JArr msgs) \<Rightarrow> JBool (list_all (\<lambda>m. is_object m \<and> has_string_role m) msgs)
                | _ \<Rightarrow> JBool False)
           | _ \<Rightarrow> JBool False)"
proof (cases obj)
  case (JObj ps)
  then show ?thesis
    by (simp add: isEvaluationRow_def get_prop_def bindE_Inr every_message_guard
             split: option.splits jsval.splits)
next
  case (JArr xs)
  then show ?thesis
    by (simp add: isEvaluationRow_def get_prop_def bindE_Inr index_prop_name)
qed (simp_all add: isEvaluationRow_def)

lemma guard_result:
  "\<exists>b. isEvaluationRow v = Inr b \<and> (b = JBool True \<or> b = JBool False \<or> (b = v \<and> \<not> to_boolean v))"
  by (cases "to_boolean v") (auto simp: isEvaluationRow_cases split: jsval.splits option.splits)

section \<open>Rows that conform to the interface\<close>

lemma optional_cases [consumes 1, case_names absent undef present]:
  assumes "optional T ps k"
  obtains "map_of ps k = None" | "map_of ps k = Some JUndefined" | v where "map_of ps k = Some v" "T v"
  using assms by (auto simp: optional_def split: option.splits)

lemma required_cases: "required T ps k \<Longrightarrow> \<exists>v. map_of ps k = Some v \<and> T v"
  by (auto simp: required_def split: option.splits)

lemma ty_Array_cases: "ty_Array T v \<Longrightarrow> \<exists>xs. v = JArr xs \<and> list_all T xs"
  by (cases v) auto

lemma ty_EvaluateResult_cases:
  "ty_EvaluateResult v \<Longrightarrow> \<exists>ps. v = JObj ps \<and> optional (ty_Array ty_StepOutput) ps ''step_outputs''"
  by (cases v) auto

lemma ty_EvaluationRow_cases:
  "ty_EvaluationRow v \<Longrightarrow>
     \<exists>ps. v = JObj ps \<and> required (ty_Array ty_Message) ps ''messages''
          \<and> optional ty_EvaluateResult ps ''evaluation_result''"
  by (cases v) auto

lemma ty_Message_not_nullish: "ty_Message m \<Longrightarrow> \<not> nullish m"
  by (cases m) auto

lemma messages_of_typed_row:
  assumes "ty_EvaluationRow row"
  obtains ps msgs where "row = JObj ps" "map_of ps ''messages'' = Some (JArr msgs)"
    "list_all ty_Message msgs"
proof -
  from assms obtain ps where ps: "row = JObj ps"
    and "required (ty_Array ty_Message) ps ''messages''"
    using ty_EvaluationRow_cases by blast
  then obtain v where v: "map_of ps ''messages'' = Some v" "ty_Array ty_Message v"
    using required_cases by blast
  then obtain msgs where "v = JArr msgs" "list_all ty_Message msgs"
    using ty_Array_cases by blast
  with ps v that show thesis by blast
qed

lemma typed_row_not_nullish: "ty_EvaluationRow row \<Longrightarrow> \<not> nullish row"
  by (cases row) auto

section \<open>The accessors on rows that conform\<close>

lemma trajectory_of_array:
  assumes "map_of ps ''evaluation_result'' = Some (JObj eps)"
    and "map_of eps ''step_outputs'' = Some (JArr steps)"
  shows "isTrajectoryEvaluation conv (JObj ps) = Inr (is_trajectory (JObj ps))"
  using assms
  by (simp add: isTrajectoryEvaluation_def is_trajectory_def field_def get_prop_def bindE_def
        gt_zero_def length_num_def)

lemma trajectory_typed:
  assumes "ty_EvaluationRow row"
  shows "isTrajectoryEvaluation conv row = Inr (is_trajectory row)"
proof -
  from assms obtain ps where ps: "row = JObj ps"
    and er: "optional ty_EvaluateResult ps ''evaluation_result''"
    using ty_EvaluationRow_cases by blast
  from er show ?thesis
  proof (cases rule: optional_cases)
    case absent
    with ps show ?thesis
      by (simp add: isTrajectoryEvaluation_def is_trajectory_def field_def get_prop_def bindE_def)
  next
    case undef
    with ps show ?thesis
      by (simp add: isTrajectoryEvaluation_def is_trajectory_def field_def get_prop_def bindE_def)
  next
    case (present v)
    then obtain eps where eps: "v = JObj eps"
      and so: "optional (ty_Array ty_StepOutput) eps ''step_outputs''"
      using ty_EvaluateResult_cases by blast
    from so show ?thesis
    proof (cases rule: optional_cases)
      case absent
      with ps present eps show ?thesis
        by (simp add: isTrajectoryEvaluation_def is_trajectory_def field_def get_prop_def bindE_def)
    next
      case undef
      with ps present eps show ?thesis
        by (simp add: isTrajectoryEvaluation_def is_trajectory_def field_def get_prop_def bindE_def)
    next
      case inner: (present w)
      then obtain steps where "w = JArr steps"
        using ty_Array_cases by blast
      with ps present eps inner show ?thesis
        by (simp add: trajectory_of_array)
    qed
  qed
qed

text \<open>The filter callback on a message that is not \<^verbatim>\<open>null\<close> or \<^verbatim>\<open>undefined\<close>.\<close>

lemma role_is_eq: "\<not> nullish m \<Longrightarrow> role_is r m = Inr (own_prop m ''role'' = Some (JStr r))"
  by (auto simp: role_is_def get_prop_def bindE_def split: option.splits)

lemma filterE_role:
  "list_all (\<lambda>m. \<not> nullish m) msgs \<Longrightarrow> filterE (role_is r) msgs = Inr (with_role r msgs)"
  by (induction msgs) (simp_all add: with_role_def role_is_eq bindE_Inr)

lemma filter_by_role:
  assumes "row = JObj ps" and "map_of ps ''messages'' = Some (JArr msgs)"
    and "list_all (\<lambda>m. \<not> nullish m) msgs"
  shows "bindE (get_prop row ''messages'') (array_filter (role_is r)) = Inr (JArr (with_role r msgs))"
  using assms by (simp add: get_prop_def bindE_Inr filterE_role)

lemma with_role_disjoint: "r \<noteq> r' \<Longrightarrow> set (with_role r msgs) \<inter> set (with_role r' msgs) = {}"
  by (auto simp: with_role_def)

lemma role_filters_typed:
  assumes "ty_EvaluationRow row"
  shows "\<exists>ps msgs. row = JObj ps \<and> map_of ps ''messages'' = Some (JArr msgs)
           \<and> getAssistantMessages row = Inr (JArr (with_role ''assistant'' msgs))
           \<and> getUserMessages row = Inr (JArr (with_role ''user'' msgs))"
proof -
  from assms obtain ps msgs where row: "row = JObj ps" "map_of ps ''messages'' = Some (JArr msgs)"
    and ty: "list_all ty_Message msgs"
    by (rule messages_of_typed_row)
  from ty have nn: "list_all (\<lambda>m. \<not> nullish m) msgs"
    by (simp add: list_all_iff ty_Message_not_nullish)
  have a: "getAssistantMessages row = Inr (JArr (with_role ''assistant'' msgs))"
    unfolding getAssistantMessages_def using row nn by (rule filter_by_role)
  have u: "getUserMessages row = Inr (JArr (with_role ''user'' msgs))"
    unfolding getUserMessages_def using row nn by (rule filter_by_role)
  from row a u show ?thesis by blast
qed

lemma conversation_length_typed:
  assumes "ty_EvaluationRow row"
  shows "\<exists>n. getConversationLength row = Inr n"
proof -
  from assms obtain ps msgs where "row = JObj ps" "map_of ps ''messages'' = Some (JArr msgs)"
    by (rule messages_of_typed_row)
  then show ?thesis
    by (simp add: getConversationLength_def get_prop_def bindE_Inr)
qed

lemma getInputMetadata_eq:
  assumes "\<not> nullish row"
  shows "getInputMetadata inh row key d = Inr (expected_metadata inh row key d)"
proof (cases "own_prop row ''input_metadata''")
  case None
  with assms show ?thesis
    by (simp add: getInputMetadata_def expected_metadata_def stored_metadata_def
          inherited_metadata_def get_prop_def get_member_opt_def bindE_Inr)
next
  case (Some m)
  show ?thesis
  proof (cases "nullish m")
    case True
    then have "own_prop m key = None" by (cases m) auto
    with assms Some True show ?thesis
      by (simp add: getInputMetadata_def expected_metadata_def stored_metadata_def
            inherited_metadata_def get_prop_def get_member_opt_def bindE_Inr)
  next
    case False
    with assms Some show ?thesis
      by (simp add: getInputMetadata_def expected_metadata_def stored_metadata_def
            inherited_metadata_def get_prop_def get_member_opt_def get_member_def bindE_Inr
            split: option.splits)
  qed
qed

lemma create_total: "\<exists>r. createEvaluationRow messages options = Inr r"
proof -
  obtain a b c d where "get_prop_opt options ''tools'' = Inr a"
    "get_prop_opt options ''inputMetadata'' = Inr b"
    "get_prop_opt options ''groundTruth'' = Inr c"
    "get_prop_opt options ''evaluationResult'' = Inr d"
    using get_prop_opt_total by metis
  then show ?thesis
    by (simp add: createEvaluationRow_def bindE_Inr)
qed

section \<open>Serialization keeps what the validator reads\<close>

lemma map_of_json_copy:
  "map_of ps k = Some v \<Longrightarrow> v \<noteq> JUndefined \<Longrightarrow>
     map_of (map (\<lambda>(k, v). (k, json_copy v)) (filter (\<lambda>(k, v). v \<noteq> JUndefined) ps)) k
       = Some (json_copy v)"
  by (induction ps) (auto split: if_splits)

lemma json_copy_message:
  assumes "is_object m" and "has_string_role m"
  shows "is_object (json_copy m) \<and> has_string_role (json_copy m)"
proof (cases m)
  case (JObj ps)
  with assms obtain s where "map_of ps ''role'' = Some (JStr s)"
    by (auto simp: has_string_role_def split: option.splits jsval.splits)
  then have "map_of (map (\<lambda>(k, v). (k, json_copy v)) (filter (\<lambda>(k, v). v \<noteq> JUndefined) ps)) ''role''
               = Some (json_copy (JStr s))"
    by (rule map_of_json_copy) simp
  with JObj show ?thesis
    by (simp add: has_string_role_def)
next
  case (JArr xs)
  with assms show ?thesis
    by (simp add: has_string_role_def index_prop_name)
qed (use assms in simp_all)

lemma json_copy_messages:
  "list_all (\<lambda>m. is_object m \<and> has_string_role m) msgs \<Longrightarrow>
   list_all (\<lambda>m. is_object m \<and> has_string_role m) (map json_copy msgs)"
  by (induction msgs) (simp_all add: json_copy_message)

section \<open>The example rows\<close>

lemma createPerTurnExample_row: "createPerTurnExample = Inr perTurnRow"
  by (simp add: createPerTurnExample_def perTurnRow_def createEvaluationRow_def get_prop_opt_def
        get_prop_def bindE_def)

lemma createTrajectoryExample_row: "createTrajectoryExample = Inr trajectoryRow"
  by (simp add: createTrajectoryExample_def trajectoryRow_def createEvaluationRow_def get_prop_opt_def
        get_prop_def bindE_def)

lemma ty_perTurnRow: "ty_EvaluationRow perTurnRow"
  by (simp add: perTurnRow_def perTurn_messages_def perTurn_inputMetadata_def
        perTurn_evaluationResult_def required_def optional_def ty_string_def ty_number_def
        ty_boolean_def ty_any_def)

lemma ty_trajectoryRow: "ty_EvaluationRow trajectoryRow"
  by (simp add: trajectoryRow_def trajectory_messages_def trajectory_inputMetadata_def
        trajectory_evaluationResult_def trajectory_stepOutputs_def required_def optional_def
        ty_string_def ty_number_def ty_boolean_def ty_any_def)

section \<open>Totality\<close>

text \<open>
  C1, as the code has it. The validator, the type guard and the constructor return
  normally on every value; the type guard returns \<^verbatim>\<open>true\<close>, \<^verbatim>\<open>false\<close> or, for a falsy
  argument, that argument itself. The accessors \<^verbatim>\<open>isTrajectoryEvaluation\<close>,
  \<^verbatim>\<open>getAssistantMessages\<close>, \<^verbatim>\<open>getUserMessages\<close>, \<^verbatim>\<open>getConversationLength\<close> and
  \<^verbatim>\<open>getInputMetadata\<close>, whose parameter is declared as an \<^verbatim>\<open>EvaluationRow\<close>, return
  normally on every value that conforms to that interface.
\<close>

theorem totality:
  "(\<exists>r. validateEvaluationRow v = Inr r)
   \<and> (\<exists>b. isEvaluationRow v = Inr b
          \<and> (b = JBool True \<or> b = JBool False \<or> (b = v \<and> \<not> to_boolean v)))
   \<and> (\<exists>r. createEvaluationRow messages options = Inr r)
   \<and> (ty_EvaluationRow row \<longrightarrow>
        (\<exists>b. isTrajectoryEvaluation conv row = Inr b)
        \<and> (\<exists>a. getAssistantMessages row = Inr a)
        \<and> (\<exists>u. getUserMessages row = Inr u)
        \<and> (\<exists>n. getConversationLength row = Inr n)
        \<and> (\<exists>x. getInputMetadata inh row key defaultValue = Inr x))"
proof (intro conjI impI)
  show "\<exists>r. validateEvaluationRow v = Inr r"
    by (simp add: validate_cases)
  show "\<exists>b. isEvaluationRow v = Inr b
          \<and> (b = JBool True \<or> b = JBool False \<or> (b = v \<and> \<not> to_boolean v))"
    by (rule guard_result)
  show "\<exists>r. createEvaluationRow messages options = Inr r"
    by (rule create_total)
next
  assume ty: "ty_EvaluationRow row"
  show "\<exists>b. isTrajectoryEvaluation conv row = Inr b"
    using ty by (simp add: trajectory_typed)
  show "\<exists>a. getAssistantMessages row = Inr a"
    using role_filters_typed [OF ty] by auto
  show "\<exists>u. getUserMessages row = Inr u"
    using role_filters_typed [OF ty] by auto
  show "\<exists>n. getConversationLength row = Inr n"
    using ty by (rule conversation_length_typed)
  from ty have "\<not> nullish row" by (rule typed_row_not_nullish)
  then show "\<exists>x. getInputMetadata inh row key defaultValue = Inr x"
    by (simp add: getInputMetadata_eq)
qed

text \<open>
  The statement above at the trajectory row of the usage example, which conforms to the
  interface, and at \<^verbatim>\<open>null\<close> for the validator and the type guard.
\<close>

theorem totality_witness:
  "ty_EvaluationRow trajectoryRow
   \<and> (\<exists>r. validateEvaluationRow JNull = Inr r)
   \<and> (\<exists>b. isEvaluationRow JNull = Inr b)
   \<and> (\<exists>b. isTrajectoryEvaluation conv_NaN trajectoryRow = Inr b)
   \<and> (\<exists>a. getAssistantMessages trajectoryRow = Inr a)
   \<and> (\<exists>u. getUserMessages trajectoryRow = Inr u)
   \<and> (\<exists>n. getConversationLength trajectoryRow = Inr n)
   \<and> (\<exists>x. getInputMetadata inherits_from_Object trajectoryRow ''row_id'' JUndefined = Inr x)"
  using ty_trajectoryRow
    totality [of JNull JNull JUndefined trajectoryRow conv_NaN inherits_from_Object "''row_id''"
      JUndefined]
  by blast

text \<open>
  C1 as the specification states it fails: on \<^verbatim>\<open>null\<close> each of the five accessors
  throws a \<^verbatim>\<open>TypeError\<close>, because it reads a property of its argument without a guard,
  and the type guard returns \<^verbatim>\<open>null\<close>, not \<^verbatim>\<open>false\<close>.
\<close>

theorem accessors_throw_on_null:
  "isTrajectoryEvaluation conv_NaN JNull = Inl TypeError
   \<and> getAssistantMessages JNull = Inl TypeError
   \<and> getUserMessages JNull = Inl TypeError
   \<and> getConversationLength JNull = Inl TypeError
   \<and> getInputMetadata inherits_from_Object JNull ''model'' JUndefined = Inl TypeError
   \<and> isEvaluationRow JNull = Inr JNull"
  by (simp add: isTrajectoryEvaluation_def getAssistantMessages_def getUserMessages_def
        getConversationLength_def getInputMetadata_def isEvaluationRow_def get_prop_def bindE_def)

section \<open>The type guard and the validator\<close>

text \<open>
  C2, as the code has it. When \<^verbatim>\<open>isEvaluationRow\<close> returns \<^verbatim>\<open>true\<close>, the argument is an
  object whose \<^verbatim>\<open>messages\<close> is an array, and the validator reports no error when that
  array has an element, and exactly "messages array cannot be empty" when it has none.
  Conversely, when the validator reports no error at all, \<^verbatim>\<open>isEvaluationRow\<close> returns
  \<^verbatim>\<open>true\<close>.
\<close>

theorem guard_vs_validator:
  "(isEvaluationRow obj = Inr (JBool True) \<longrightarrow>
      (\<exists>ps msgs. obj = JObj ps \<and> map_of ps ''messages'' = Some (JArr msgs) \<and>
         validateEvaluationRow obj = Inr
           (if msgs = [] then \<lparr>valid = False, errors = [''messages array cannot be empty'']\<rparr>
            else \<lparr>valid = True, errors = []\<rparr>)))
   \<and> ((\<exists>r. validateEvaluationRow obj = Inr r \<and> errors r = []) \<longrightarrow>
      isEvaluationRow obj = Inr (JBool True))"
proof (intro conjI impI)
  assume acc: "isEvaluationRow obj = Inr (JBool True)"
  then have t: "to_boolean obj"
    by (auto simp: isEvaluationRow_cases split: if_splits)
  with acc obtain ps where ps: "obj = JObj ps"
    by (cases obj) (auto simp: isEvaluationRow_cases)
  with acc obtain msgs where m: "map_of ps ''messages'' = Some (JArr msgs)"
    and ok: "list_all (\<lambda>m. is_object m \<and> has_string_role m) msgs"
    by (auto simp: isEvaluationRow_cases split: option.splits jsval.splits)
  from ok have "expected_errors msgs = []" by (simp add: expected_errors_empty)
  with ps m have "validateEvaluationRow obj = Inr
           (if msgs = [] then \<lparr>valid = False, errors = [''messages array cannot be empty'']\<rparr>
            else \<lparr>valid = True, errors = []\<rparr>)"
    by (simp add: validate_cases)
  with ps m show "\<exists>ps msgs. obj = JObj ps \<and> map_of ps ''messages'' = Some (JArr msgs) \<and>
         validateEvaluationRow obj = Inr
           (if msgs = [] then \<lparr>valid = False, errors = [''messages array cannot be empty'']\<rparr>
            else \<lparr>valid = True, errors = []\<rparr>)"
    by blast
next
  assume "\<exists>r. validateEvaluationRow obj = Inr r \<and> errors r = []"
  then obtain r where r: "validateEvaluationRow obj = Inr r" and e: "errors r = []"
    by blast
  from r e have t: "to_boolean obj"
    by (auto simp: validate_cases split: if_splits)
  from r e t obtain msgs where m: "own_prop obj ''messages'' = Some (JArr msgs)"
    and ne: "msgs \<noteq> []" and ok: "expected_errors msgs = []"
    by (auto simp: validate_cases split: option.splits jsval.splits if_splits)
  from m obtain ps where ps: "obj = JObj ps"
    using own_prop_messages_array by blast
  from ok have "list_all (\<lambda>m. is_object m \<and> has_string_role m) msgs"
    by (simp add: expected_errors_empty)
  with ps m show "isEvaluationRow obj = Inr (JBool True)"
    by (simp add: isEvaluationRow_cases)
qed

text \<open>
  The statement above at a row with one user message: the guard accepts it and the
  validator reports no error.
\<close>

theorem guard_vs_validator_witness:
  "isEvaluationRow (JObj [(''messages'', JArr [JObj [(''role'', JStr ''user'')]])]) = Inr (JBool True)
   \<and> validateEvaluationRow (JObj [(''messages'', JArr [JObj [(''role'', JStr ''user'')]])]) =
       Inr \<lparr>valid = True, errors = []\<rparr>"
proof -
  let ?row = "JObj [(''messages'', JArr [JObj [(''role'', JStr ''user'')]])]"
  have acc: "isEvaluationRow ?row = Inr (JBool True)"
    by (simp add: isEvaluationRow_def message_guard_def get_prop_def bindE_def)
  with guard_vs_validator [of ?row] show ?thesis
    by auto
qed

text \<open>
  C2 as the specification states it fails: the type guard accepts an object whose
  \<^verbatim>\<open>messages\<close> is the empty array, since \<^verbatim>\<open>every\<close> holds of an empty array, and the
  validator rejects it.
\<close>

theorem guard_accepts_empty_messages:
  "isEvaluationRow (JObj [(''messages'', JArr [])]) = Inr (JBool True)
   \<and> validateEvaluationRow (JObj [(''messages'', JArr [])]) =
       Inr \<lparr>valid = False, errors = [''messages array cannot be empty'']\<rparr>"
  by (simp add: isEvaluationRow_def validateEvaluationRow_def get_prop_def bindE_def)

section \<open>The constructor without options\<close>

text \<open>
  C3, as the code has it. Without an \<^verbatim>\<open>options\<close> argument the constructor returns an
  object with five properties: \<^verbatim>\<open>messages\<close> is the given value, and \<^verbatim>\<open>tools\<close>,
  \<^verbatim>\<open>input_metadata\<close>, \<^verbatim>\<open>ground_truth\<close> and \<^verbatim>\<open>evaluation_result\<close> are properties of the
  object whose value is \<^verbatim>\<open>undefined\<close>; none is \<^verbatim>\<open>null\<close> or an empty container.
\<close>

theorem create_without_options:
  "createEvaluationRow messages JUndefined =
     Inr (JObj [(''messages'', messages),
                (''tools'', JUndefined),
                (''input_metadata'', JUndefined),
                (''ground_truth'', JUndefined),
                (''evaluation_result'', JUndefined)])"
  by (simp add: createEvaluationRow_def get_prop_opt_undefined bindE_Inr)

text \<open>
  C3 as the specification states it fails: the claim says that the four fields are
  absent, not present with an \<^verbatim>\<open>undefined\<close> value, and the row built from one user
  message has the property \<^verbatim>\<open>tools\<close>, with the value \<^verbatim>\<open>undefined\<close>.
\<close>

theorem create_keeps_option_keys:
  "createEvaluationRow (JArr [JObj [(''role'', JStr ''user'')]]) JUndefined =
     Inr (JObj [(''messages'', JArr [JObj [(''role'', JStr ''user'')]]),
                (''tools'', JUndefined),
                (''input_metadata'', JUndefined),
                (''ground_truth'', JUndefined),
                (''evaluation_result'', JUndefined)])
   \<and> own_prop (JObj [(''messages'', JArr [JObj [(''role'', JStr ''user'')]]),
                (''tools'', JUndefined),
                (''input_metadata'', JUndefined),
                (''ground_truth'', JUndefined),
                (''evaluation_result'', JUndefined)]) ''tools'' = Some JUndefined"
  by (simp add: createEvaluationRow_def get_prop_opt_undefined bindE_Inr)

section \<open>Metadata lookup\<close>

text \<open>
  C4, as the code has it. On a row that is not \<^verbatim>\<open>null\<close> or \<^verbatim>\<open>undefined\<close>,
  \<^verbatim>\<open>getInputMetadata\<close> reads the whole key as one property name of \<^verbatim>\<open>input_metadata\<close>,
  one level deep. When a value is stored under the key, it returns that value, unless
  the value is \<^verbatim>\<open>null\<close> or \<^verbatim>\<open>undefined\<close>: then it returns the default. When nothing is
  stored under the key and the key names a member that \<^verbatim>\<open>input_metadata\<close> inherits from
  its prototype chain, such as \<^verbatim>\<open>toString\<close> or \<^verbatim>\<open>constructor\<close>, it returns that inherited
  member. In every other case, so when \<^verbatim>\<open>input_metadata\<close> is missing, \<^verbatim>\<open>null\<close> or
  \<^verbatim>\<open>undefined\<close>, and when the key is neither stored nor inherited, it returns the
  default value (\<^verbatim>\<open>undefined\<close> when none is given). This holds for every table \<open>inh\<close>
  of inherited names.
\<close>

theorem metadata_lookup:
  assumes "\<not> nullish row"
  shows "getInputMetadata inh row key defaultValue =
           Inr (case stored_metadata row key of
                  Some v \<Rightarrow> Data (if nullish v then defaultValue else v)
                | None \<Rightarrow>
                    if inherited_metadata inh row key then Inherited key
                    else Data defaultValue)"
  using getInputMetadata_eq [OF assms, of inh key defaultValue]
  by (simp add: expected_metadata_def)

text \<open>
  The statement above at the specification's two examples, at the per-turn row of the
  usage example, where the dotted key \<^verbatim>\<open>dataset_info.source\<close> is not a key of
  \<^verbatim>\<open>input_metadata\<close> and the default is returned, and at an empty \<^verbatim>\<open>input_metadata\<close>
  with the key \<^verbatim>\<open>toString\<close>, where the inherited member is returned.
\<close>

theorem metadata_lookup_witness:
  "getInputMetadata inherits_from_Object
       (JObj [(''input_metadata'', JObj [(''model'', JStr ''gpt-4'')])])
       ''model'' (JStr ''unknown'') = Inr (Data (JStr ''gpt-4''))
   \<and> getInputMetadata inherits_from_Object (JObj []) ''model'' (JStr ''unknown'') =
       Inr (Data (JStr ''unknown''))
   \<and> getInputMetadata inherits_from_Object perTurnRow ''dataset_info.source'' (JStr ''unknown'') =
       Inr (Data (JStr ''unknown''))
   \<and> getInputMetadata inherits_from_Object perTurnRow ''row_id'' JUndefined =
       Inr (Data (JStr ''math_001''))
   \<and> getInputMetadata inherits_from_Object (JObj [(''input_metadata'', JObj [])])
       ''toString'' (JStr ''unknown'') = Inr (Inherited ''toString'')"
  using metadata_lookup [of "JObj [(''input_metadata'', JObj [(''model'', JStr ''gpt-4'')])]"
          inherits_from_Object "''model''" "JStr ''unknown''"]
    metadata_lookup [of "JObj []" inherits_from_Object "''model''" "JStr ''unknown''"]
    metadata_lookup [of perTurnRow inherits_from_Object "''dataset_info.source''" "JStr ''unknown''"]
    metadata_lookup [of perTurnRow inherits_from_Object "''row_id''" JUndefined]
    metadata_lookup [of "JObj [(''input_metadata'', JObj [])]" inherits_from_Object "''toString''"
          "JStr ''unknown''"]
  by (simp add: stored_metadata_def inherited_metadata_def inherits_from_Object_def
        Object_prototype_def perTurnRow_def perTurn_inputMetadata_def)

text \<open>
  C4 as the specification states it fails, in two ways. With \<^verbatim>\<open>null\<close> stored under the
  key, the mapping is present and contains the key, and the default is returned instead
  of the stored value. With an empty \<^verbatim>\<open>input_metadata\<close> and the key \<^verbatim>\<open>toString\<close>, the
  mapping does not contain the key, and the member inherited from \<^verbatim>\<open>Object.prototype\<close>
  is returned instead of the default.
\<close>

theorem null_entry_gives_default:
  "stored_metadata (JObj [(''input_metadata'', JObj [(''model'', JNull)])]) ''model'' = Some JNull
   \<and> getInputMetadata inherits_from_Object
        (JObj [(''input_metadata'', JObj [(''model'', JNull)])])
        ''model'' (JStr ''unknown'') = Inr (Data (JStr ''unknown''))
   \<and> stored_metadata (JObj [(''input_metadata'', JObj [])]) ''toString'' = None
   \<and> getInputMetadata inherits_from_Object (JObj [(''input_metadata'', JObj [])])
        ''toString'' (JStr ''unknown'') = Inr (Inherited ''toString'')"
  by (simp add: stored_metadata_def getInputMetadata_def get_prop_def get_member_opt_def
        get_member_def inherits_from_Object_def Object_prototype_def bindE_def)

section \<open>Trajectory classification\<close>

text \<open>
  C5. On every row that conforms to the \<^verbatim>\<open>EvaluationRow\<close> interface,
  \<^verbatim>\<open>isTrajectoryEvaluation\<close> returns \<^verbatim>\<open>true\<close> if and only if \<^verbatim>\<open>evaluation_result\<close> is
  present, its \<^verbatim>\<open>step_outputs\<close> is present, and that sequence has more than zero
  elements.
\<close>

theorem trajectory_classification:
  assumes "ty_EvaluationRow row"
  shows "isTrajectoryEvaluation conv row = Inr (is_trajectory row)"
  using assms by (rule trajectory_typed)

text \<open>
  The statement above at the two rows of the usage example: the trajectory row, with two
  step outputs, and the per-turn row, whose evaluation result has no \<^verbatim>\<open>step_outputs\<close>.
\<close>

theorem trajectory_classification_witness:
  "isTrajectoryEvaluation conv_NaN trajectoryRow = Inr True
   \<and> isTrajectoryEvaluation conv_NaN perTurnRow = Inr False"
proof -
  have t: "is_trajectory trajectoryRow"
    by (simp add: is_trajectory_def field_def trajectoryRow_def trajectory_evaluationResult_def
          trajectory_stepOutputs_def)
  have p: "\<not> is_trajectory perTurnRow"
    by (simp add: is_trajectory_def field_def perTurnRow_def perTurn_evaluationResult_def)
  from t p trajectory_classification [OF ty_trajectoryRow, of conv_NaN]
    trajectory_classification [OF ty_perTurnRow, of conv_NaN]
  show ?thesis by simp
qed

section \<open>Per-message errors\<close>

text \<open>
  C6. On a row whose \<^verbatim>\<open>messages\<close> is a non-empty array the validator visits every
  message: its errors are, for the indices in ascending order, "messages[i] must be an
  object" for an element that is not an object and "messages[i].role must be a string"
  for an object whose \<^verbatim>\<open>role\<close> is not a string, and \<^verbatim>\<open>valid\<close> holds exactly when there
  is no error.
\<close>

theorem validate_messages:
  assumes "row = JObj ps" and "map_of ps ''messages'' = Some (JArr msgs)" and "msgs \<noteq> []"
  shows "validateEvaluationRow row =
           Inr \<lparr>valid = (expected_errors msgs = []), errors = expected_errors msgs\<rparr>"
  using assms
  by (simp add: validateEvaluationRow_def get_prop_def bindE_Inr forEach_check_expected)

text \<open>
  The statement above at three messages, the second without a \<^verbatim>\<open>role\<close> and the third
  \<^verbatim>\<open>null\<close>: both failures are reported, in the order of the indices.
\<close>

theorem validate_messages_witness:
  "validateEvaluationRow
     (JObj [(''messages'', JArr [JObj [(''role'', JStr ''user'')],
                                 JObj [(''notRole'', JNum (Finite 1))],
                                 JNull])]) =
     Inr \<lparr>valid = False,
          errors = [''messages[1].role must be a string'', ''messages[2] must be an object'']\<rparr>"
proof -
  let ?msgs = "[JObj [(''role'', JStr ''user'')], JObj [(''notRole'', JNum (Finite 1))], JNull]"
  have e: "expected_errors ?msgs =
      [''messages[1].role must be a string'', ''messages[2] must be an object'']"
    by (simp add: expected_errors_def message_errors_def has_string_role_def
          upt_rec [of 0] upt_rec [of 1] upt_rec [of 2] upt_rec [of 3]
          show_nat.simps [of "Suc 0"] show_nat.simps [of "Suc (Suc 0)"] digit_char_def)
  have "?msgs \<noteq> []" by simp
  from validate_messages [OF refl _ this, of "[(''messages'', JArr ?msgs)]"] e
  show ?thesis by simp
qed

section \<open>Fixed inputs\<close>

text \<open>
  C7. On \<^verbatim>\<open>null\<close> and on \<^verbatim>\<open>undefined\<close> the validator returns at once, not valid, with
  the one error "EvaluationRow is null or undefined"; on the empty object it reports
  "messages field is required and must be an array"; on an object whose \<^verbatim>\<open>messages\<close>
  is the empty array it reports exactly "messages array cannot be empty".
\<close>

theorem validate_fixed_inputs:
  "validateEvaluationRow JNull =
     Inr \<lparr>valid = False, errors = [''EvaluationRow is null or undefined'']\<rparr>
   \<and> validateEvaluationRow JUndefined =
     Inr \<lparr>valid = False, errors = [''EvaluationRow is null or undefined'']\<rparr>
   \<and> validateEvaluationRow (JObj []) =
     Inr \<lparr>valid = False, errors = [''messages field is required and must be an array'']\<rparr>
   \<and> validateEvaluationRow (JObj [(''messages'', JArr [])]) =
     Inr \<lparr>valid = False, errors = [''messages array cannot be empty'']\<rparr>"
  by (simp add: validateEvaluationRow_def get_prop_def bindE_def)

section \<open>Filtering by role\<close>

text \<open>
  C8. On every row that conforms to the \<^verbatim>\<open>EvaluationRow\<close> interface,
  \<^verbatim>\<open>getAssistantMessages\<close> returns the messages whose \<^verbatim>\<open>role\<close> is "assistant" and
  \<^verbatim>\<open>getUserMessages\<close> those whose \<^verbatim>\<open>role\<close> is "user", each in the original order, and
  no message is in both results. The functions have no effect besides the array they
  return: the source assigns to nothing, and \<^verbatim>\<open>filter\<close> builds a new array.
\<close>

theorem role_filters:
  assumes "ty_EvaluationRow row"
  shows "\<exists>ps msgs. row = JObj ps \<and> map_of ps ''messages'' = Some (JArr msgs)
           \<and> getAssistantMessages row = Inr (JArr (with_role ''assistant'' msgs))
           \<and> getUserMessages row = Inr (JArr (with_role ''user'' msgs))
           \<and> set (with_role ''assistant'' msgs) \<inter> set (with_role ''user'' msgs) = {}"
proof -
  from assms obtain ps msgs where "row = JObj ps \<and> map_of ps ''messages'' = Some (JArr msgs)
           \<and> getAssistantMessages row = Inr (JArr (with_role ''assistant'' msgs))
           \<and> getUserMessages row = Inr (JArr (with_role ''user'' msgs))"
    using role_filters_typed by blast
  moreover have "set (with_role ''assistant'' msgs) \<inter> set (with_role ''user'' msgs) = {}"
    by (rule with_role_disjoint) simp
  ultimately show ?thesis by blast
qed

text \<open>
  The statement above at the trajectory row of the usage example, whose messages
  alternate between user and assistant.
\<close>

theorem role_filters_witness:
  "getAssistantMessages trajectoryRow =
     Inr (JArr [JObj [(''role'', JStr ''assistant''), (''content'', JStr ''Starting step 1'')],
                JObj [(''role'', JStr ''assistant''), (''content'', JStr ''Completing step 2'')]])
   \<and> getUserMessages trajectoryRow =
     Inr (JArr [JObj [(''role'', JStr ''user''), (''content'', JStr ''Start task'')],
                JObj [(''role'', JStr ''user''), (''content'', JStr ''Continue'')]])"
proof -
  from role_filters [OF ty_trajectoryRow] obtain ps msgs
    where row: "trajectoryRow = JObj ps" and m: "map_of ps ''messages'' = Some (JArr msgs)"
      and a: "getAssistantMessages trajectoryRow = Inr (JArr (with_role ''assistant'' msgs))"
      and u: "getUserMessages trajectoryRow = Inr (JArr (with_role ''user'' msgs))"
    by blast
  from row m have "msgs = trajectory_messages"
    by (auto simp: trajectoryRow_def)
  with a u show ?thesis
    by (simp add: with_role_def trajectory_messages_def)
qed

section \<open>Serialization round trip\<close>

text \<open>
  C9. A row that the validator finds valid can be serialized to JSON and parsed back,
  and the validator's report on the result is the same as on the row.
\<close>

theorem roundtrip_validation:
  assumes "validateEvaluationRow row = Inr r" and "valid r"
  shows "\<exists>row'. json_roundtrip row = Inr row' \<and> validateEvaluationRow row' = validateEvaluationRow row"
proof -
  from assms have "errors r = []"
    by (simp add: valid_iff_no_errors)
  with assms obtain ps msgs where row: "row = JObj ps"
    and m: "map_of ps ''messages'' = Some (JArr msgs)" and ne: "msgs \<noteq> []"
    and ok: "list_all (\<lambda>m. is_object m \<and> has_string_role m) msgs"
    using valid_row_shape by blast
  let ?ps' = "map (\<lambda>(k, v). (k, json_copy v)) (filter (\<lambda>(k, v). v \<noteq> JUndefined) ps)"
  have rt: "json_roundtrip row = Inr (JObj ?ps')"
    using row by (simp add: json_roundtrip_def)
  have "map_of ?ps' ''messages'' = Some (json_copy (JArr msgs))"
    using m by (rule map_of_json_copy) simp
  then have m': "map_of ?ps' ''messages'' = Some (JArr (map json_copy msgs))"
    by simp
  have ne': "map json_copy msgs \<noteq> []"
    using ne by simp
  have ok': "list_all (\<lambda>m. is_object m \<and> has_string_role m) (map json_copy msgs)"
    using ok by (rule json_copy_messages)
  have "validateEvaluationRow (JObj ?ps') = Inr \<lparr>valid = True, errors = []\<rparr>"
    using m' ne' ok' by (rule validate_well_formed)
  moreover have "validateEvaluationRow row = Inr \<lparr>valid = True, errors = []\<rparr>"
    unfolding row using m ne ok by (rule validate_well_formed)
  ultimately show ?thesis
    using rt by simp
qed

text \<open>
  The statement above at the per-turn row of the usage example, whose \<^verbatim>\<open>tools\<close>
  property is \<^verbatim>\<open>undefined\<close> and is left out by the serialization.
\<close>

theorem roundtrip_validation_witness:
  "validateEvaluationRow perTurnRow = Inr \<lparr>valid = True, errors = []\<rparr>
   \<and> (\<exists>row'. json_roundtrip perTurnRow = Inr row'
         \<and> validateEvaluationRow row' = Inr \<lparr>valid = True, errors = []\<rparr>)"
proof -
  have v: "validateEvaluationRow perTurnRow = Inr \<lparr>valid = True, errors = []\<rparr>"
    by (simp add: validate_cases expected_errors_empty perTurnRow_def perTurn_messages_def
          has_string_role_def)
  have "valid \<lparr>valid = True, errors = []\<rparr>" by simp
  with v roundtrip_validation [of perTurnRow "\<lparr>valid = True, errors = []\<rparr>"]
  show ?thesis by simp
qed

section \<open>Falsy inputs\<close>

text \<open>
  C10. On every falsy value, so also on \<^verbatim>\<open>0\<close>, the empty string, \<^verbatim>\<open>false\<close> and
  \<^verbatim>\<open>NaN\<close>, the validator returns not valid with the one error "EvaluationRow is null
  or undefined".
\<close>

theorem falsy_reported_as_null:
  assumes "\<not> to_boolean row"
  shows "validateEvaluationRow row =
           Inr \<lparr>valid = False, errors = [''EvaluationRow is null or undefined'']\<rparr>"
  using assms by (simp add: validateEvaluationRow_def)

text \<open>
  The statement above at \<^verbatim>\<open>0\<close>, the empty string, \<^verbatim>\<open>false\<close> and \<^verbatim>\<open>NaN\<close>.
\<close>

theorem falsy_reported_as_null_witness:
  "validateEvaluationRow (JNum (Finite 0)) =
     Inr \<lparr>valid = False, errors = [''EvaluationRow is null or undefined'']\<rparr>
   \<and> validateEvaluationRow (JStr []) =
     Inr \<lparr>valid = False, errors = [''EvaluationRow is null or undefined'']\<rparr>
   \<and> validateEvaluationRow (JBool False) =
     Inr \<lparr>valid = False, errors = [''EvaluationRow is null or undefined'']\<rparr>
   \<and> validateEvaluationRow (JNum NaN) =
     Inr \<lparr>valid = False, errors = [''EvaluationRow is null or undefined'']\<rparr>"
  using falsy_reported_as_null [of "JNum (Finite 0)"] falsy_reported_as_null [of "JStr []"]
    falsy_reported_as_null [of "JBool False"] falsy_reported_as_null [of "JNum NaN"]
  by simp

end
